theory Spec2Isabelle
  imports Complex_Main "HOL-Library.Char_ord" "HOL-Library.List_Lexorder"
begin

section \<open>Values of the Python program\<close>

text \<open>
  The relay in \<^verbatim>\<open>app.py\<close> handles whatever \<^verbatim>\<open>request.json\<close> evaluates to: the
  Python image of a JSON document. \<^verbatim>\<open>None\<close> is \<open>JNull\<close>, a \<^verbatim>\<open>dict\<close> is an association
  list in insertion order, Python's unbounded \<^verbatim>\<open>int\<close> is \<open>int\<close>.
\<close>

datatype json =
    JNull
  | JBool bool
  | JInt int
  | JFloat real
  | JStr string
  | JArr "json list"
  | JObj "(string \<times> json) list"

text \<open>Python truth value testing, as used by \<^verbatim>\<open>if not data\<close> and \<^verbatim>\<open>if not bot_token\<close>.\<close>

fun py_truthy :: "json \<Rightarrow> bool" where
  "py_truthy JNull = False"
| "py_truthy (JBool b) = b"
| "py_truthy (JInt i) = (i \<noteq> 0)"
| "py_truthy (JFloat r) = (r \<noteq> 0)"
| "py_truthy (JStr s) = (s \<noteq> [])"
| "py_truthy (JArr xs) = (xs \<noteq> [])"
| "py_truthy (JObj kvs) = (kvs \<noteq> [])"

text \<open>
  What the program reads of an HTTP response in its \<^verbatim>\<open>except\<close> block:
  \<^verbatim>\<open>e.response.status_code\<close> and \<^verbatim>\<open>e.response.text\<close>.
\<close>

datatype http_response = Response (status_code: int) (response_text: string)

text \<open>
  Exceptions, by the classes the program tells apart. \<open>RequestException\<close> stands for
  \<^verbatim>\<open>requests.exceptions.RequestException\<close> and its subclasses, with the \<^verbatim>\<open>response\<close>
  attribute and \<^verbatim>\<open>str(e)\<close>; \<open>ValueError\<close> has the decode errors of the \<^verbatim>\<open>json\<close> module among
  its subclasses; \<open>PyException\<close> is any other \<^verbatim>\<open>Exception\<close>, among them the ones
  \<^verbatim>\<open>send_telegram_request\<close> raises itself.
\<close>

datatype py_exc =
    RequestException "http_response option" string
  | ValueError string
  | TypeError string
  | AttributeError string
  | PyException string

fun exc_str :: "py_exc \<Rightarrow> string" where
  "exc_str (RequestException r m) = m"
| "exc_str (ValueError m) = m"
| "exc_str (TypeError m) = m"
| "exc_str (AttributeError m) = m"
| "exc_str (PyException m) = m"

subsection \<open>Formatting\<close>

definition digit_char :: "nat \<Rightarrow> char" where
  "digit_char d = ''0123456789'' ! d"

fun str_nat :: "nat \<Rightarrow> string" where
  "str_nat n = (if n < 10 then [digit_char n] else str_nat (n div 10) @ [digit_char (n mod 10)])"

declare str_nat.simps [simp del]

text \<open>\<^verbatim>\<open>str\<close> of a Python \<^verbatim>\<open>int\<close>, as an f-string inserts it.\<close>

definition str_int :: "int \<Rightarrow> string" where
  "str_int i = (if i < 0 then CHR ''-'' # str_nat (nat (- i)) else str_nat (nat i))"

text \<open>
  An f-string field \<^verbatim>\<open>{token}\<close>: a \<^verbatim>\<open>str\<close> is inserted as it is, an \<^verbatim>\<open>int\<close> in decimal, a
  \<^verbatim>\<open>bool\<close> by its name. The text of a float, a list or a dict is the Python runtime's
  \<^verbatim>\<open>repr\<close> and is taken as the parameter \<open>repr\<close>.
\<close>

fun py_format :: "(json \<Rightarrow> string) \<Rightarrow> json \<Rightarrow> string" where
  "py_format repr (JStr s) = s"
| "py_format repr (JInt i) = str_int i"
| "py_format repr (JBool b) = (if b then ''True'' else ''False'')"
| "py_format repr JNull = ''None''"
| "py_format repr v = repr v"

subsection \<open>Membership and \<^verbatim>\<open>pop\<close>\<close>

text \<open>\<^verbatim>\<open>needle in haystack\<close> on two \<^verbatim>\<open>str\<close>: the substring test.\<close>

fun str_contains :: "string \<Rightarrow> string \<Rightarrow> bool" where
  "str_contains needle [] = (needle = [])"
| "str_contains needle (c # cs) =
     (take (length needle) (c # cs) = needle \<or> str_contains needle cs)"

text \<open>
  \<^verbatim>\<open>key in data\<close> for a \<^verbatim>\<open>str\<close> key: a key of a dict, an element of a list, a substring
  of a string; a number, a bool or \<^verbatim>\<open>None\<close> is not iterable and raises \<^verbatim>\<open>TypeError\<close>.
\<close>

fun py_contains :: "string \<Rightarrow> json \<Rightarrow> py_exc + bool" where
  "py_contains k (JObj kvs) = Inr (k \<in> set (map fst kvs))"
| "py_contains k (JArr xs) = Inr (JStr k \<in> set xs)"
| "py_contains k (JStr s) = Inr (str_contains k s)"
| "py_contains k v = Inl (TypeError ''argument is not iterable'')"

definition dict_get :: "string \<Rightarrow> (string \<times> json) list \<Rightarrow> json option" where
  "dict_get k kvs = map_of kvs k"

definition dict_del :: "string \<Rightarrow> (string \<times> json) list \<Rightarrow> (string \<times> json) list" where
  "dict_del k kvs = filter (\<lambda>kv. fst kv \<noteq> k) kvs"

text \<open>
  \<^verbatim>\<open>data.pop(k, default)\<close>: on a dict, the value under \<open>k\<close> (or the default) and the
  dict without \<open>k\<close>; \<^verbatim>\<open>list.pop\<close> takes no default (\<^verbatim>\<open>TypeError\<close>); the other values
  have no \<^verbatim>\<open>pop\<close> (\<^verbatim>\<open>AttributeError\<close>). The result pairs the popped value with the
  mutated \<open>data\<close>.
\<close>

fun py_pop :: "string \<Rightarrow> json \<Rightarrow> json \<Rightarrow> py_exc + (json \<times> json)" where
  "py_pop k d (JObj kvs) =
     Inr (case dict_get k kvs of Some v \<Rightarrow> v | None \<Rightarrow> d, JObj (dict_del k kvs))"
| "py_pop k d (JArr xs) = Inl (TypeError ''pop expected at most 1 argument, got 2'')"
| "py_pop k d v = Inl (AttributeError ''object has no attribute pop'')"

section \<open>The outside world\<close>

text \<open>One outbound call \<^verbatim>\<open>requests.post(url, json=params, timeout=10)\<close>.\<close>

record outbound_call =
  call_url :: string
  call_json :: json
  call_timeout :: nat

text \<open>
  The program keeps no state between requests. What a request does to the outside is
  returned as a list of events, in order: the entry into \<^verbatim>\<open>send_telegram_request\<close> with
  its three arguments (method, token, params), and the outbound call.
\<close>

datatype event =
    ForwarderCall string json json
  | HttpPost outbound_call

text \<open>
  What \<^verbatim>\<open>requests.post\<close> does: it raises, or it returns a response, given here with the
  outcome of \<^verbatim>\<open>response.json()\<close> on it (the parsed body, or the exception of the parser).
\<close>

datatype post_outcome =
    PostRaises py_exc
  | PostReturns http_response "py_exc + json"

text \<open>
  The environment of a request: the value of \<^verbatim>\<open>os.getenv('TELEGRAM_BOT_TOKEN')\<close> read at
  start-up, the network, and the runtime's \<^verbatim>\<open>repr\<close>.
\<close>

record env =
  DEFAULT_BOT_TOKEN :: "string option"
  requests_post :: "outbound_call \<Rightarrow> post_outcome"
  py_repr :: "json \<Rightarrow> string"

definition default_token :: "env \<Rightarrow> json" where
  "default_token e = (case DEFAULT_BOT_TOKEN e of None \<Rightarrow> JNull | Some s \<Rightarrow> JStr s)"

text \<open>
  \<^verbatim>\<open>response.raise_for_status()\<close>, by the comment on it in the source: an exception for
  4XX/5XX responses, carrying the response. Its own message is only logged.
\<close>

definition raise_for_status :: "http_response \<Rightarrow> py_exc + unit" where
  "raise_for_status r =
     (if 400 \<le> status_code r \<and> status_code r < 600
      then Inl (RequestException (Some r)
             (str_int (status_code r) @
                (if status_code r < 500 then '' Client Error'' else '' Server Error'')))
      else Inr ())"

section \<open>The forwarder\<close>

definition telegram_url :: "env \<Rightarrow> json \<Rightarrow> string \<Rightarrow> string" where
  "telegram_url e token method =
     ''https://api.telegram.org/bot'' @ py_format (py_repr e) token @ ''/'' @ method"

text \<open>
  \<^verbatim>\<open>send_telegram_request(method, token, params)\<close>. \<open>Inl\<close> is the exception that leaves
  the function, \<open>Inr\<close> the returned value. The \<^verbatim>\<open>except\<close> clause catches only
  \<open>RequestException\<close>; anything else leaves the function as it is. Logging is left out.
\<close>

definition send_telegram_request ::
  "env \<Rightarrow> string \<Rightarrow> json \<Rightarrow> json \<Rightarrow> (py_exc + json) \<times> event list" where
  "send_telegram_request e method token params =
     (let url = telegram_url e token method;
          c = \<lparr>call_url = url, call_json = params, call_timeout = 10\<rparr>;
          events = [ForwarderCall method token params, HttpPost c];
          body = (case requests_post e c of
                    PostRaises x \<Rightarrow> Inl x
                  | PostReturns response parsed \<Rightarrow>
                      (case raise_for_status response of
                         Inl x \<Rightarrow> Inl x
                       | Inr u \<Rightarrow> parsed))
      in (case body of
            Inr v \<Rightarrow> (Inr v, events)
          | Inl (RequestException (Some r) m) \<Rightarrow>
              (Inl (PyException
                 (''Telegram API error ('' @ str_int (status_code r) @ ''): ''
                    @ response_text r)), events)
          | Inl (RequestException None m) \<Rightarrow>
              (Inl (PyException (''Request to Telegram API failed: '' @ m)), events)
          | Inl x \<Rightarrow> (Inl x, events)))"

section \<open>The handlers\<close>

type_synonym response = "json \<times> int"

text \<open>
  \<^verbatim>\<open>jsonify(value)\<close> serialises with the keys of every object in sorted order (Flask's
  default, which the application does not change). The body of a response is the JSON
  document the client reads: the value with its keys in that order.
\<close>

fun jsonify :: "json \<Rightarrow> json" where
  "jsonify (JObj kvs) = JObj (sort_key fst (map (\<lambda>kv. (fst kv, jsonify (snd kv))) kvs))"
| "jsonify (JArr xs) = JArr (map jsonify xs)"
| "jsonify v = v"

text \<open>\<^verbatim>\<open>jsonify({"error": m})\<close>: one key, a string under it.\<close>

definition jsonify_error :: "string \<Rightarrow> json" where
  "jsonify_error m = JObj [(''error'', JStr m)]"

definition no_token_message :: string where
  "no_token_message =
     ''No bot token provided and TELEGRAM_BOT_TOKEN environment variable not set''"

text \<open>
  Each handler returns \<open>Inr\<close> of its response (body and status), or \<open>Inl\<close> of an exception
  it does not catch, and the events of the request. \<^verbatim>\<open>data\<close> is the value of
  \<^verbatim>\<open>request.json\<close>; the first line of each handler, which reads it, is in
  \<open>dispatch_request\<close> below.
\<close>

definition send_message :: "env \<Rightarrow> json \<Rightarrow> (py_exc + response) \<times> event list" where
  "send_message e data =
     (if \<not> py_truthy data then (Inr (jsonify_error ''No data provided'', 400), [])
      else (case py_contains ''chat_id'' data of
        Inl x \<Rightarrow> (Inl x, [])
      | Inr has_chat_id \<Rightarrow>
      (if \<not> has_chat_id
       then (Inr (jsonify_error ''Missing required field: chat_id'', 400), [])
       else (case py_contains ''text'' data of
         Inl x \<Rightarrow> (Inl x, [])
       | Inr has_text \<Rightarrow>
       (if \<not> has_text
        then (Inr (jsonify_error ''Missing required field: text'', 400), [])
        else (case py_pop ''bot_token'' (default_token e) data of
          Inl x \<Rightarrow> (Inl x, [])
        | Inr (bot_token, data') \<Rightarrow>
        (if \<not> py_truthy bot_token
         then (Inr (jsonify_error no_token_message, 400), [])
         else (case send_telegram_request e ''sendMessage'' bot_token data' of
           (Inr response, events) \<Rightarrow> (Inr (jsonify response, 200), events)
         | (Inl x, events) \<Rightarrow> (Inr (jsonify_error (exc_str x), 500), events)))))))))"

definition send_photo :: "env \<Rightarrow> json \<Rightarrow> (py_exc + response) \<times> event list" where
  "send_photo e data =
     (if \<not> py_truthy data then (Inr (jsonify_error ''No data provided'', 400), [])
      else (case py_contains ''chat_id'' data of
        Inl x \<Rightarrow> (Inl x, [])
      | Inr has_chat_id \<Rightarrow>
      (if \<not> has_chat_id
       then (Inr (jsonify_error ''Missing required field: chat_id'', 400), [])
       else (case py_contains ''photo'' data of
         Inl x \<Rightarrow> (Inl x, [])
       | Inr has_photo \<Rightarrow>
       (if \<not> has_photo
        then (Inr (jsonify_error ''Missing required field: photo'', 400), [])
        else (case py_pop ''bot_token'' (default_token e) data of
          Inl x \<Rightarrow> (Inl x, [])
        | Inr (bot_token, data') \<Rightarrow>
        (if \<not> py_truthy bot_token
         then (Inr (jsonify_error no_token_message, 400), [])
         else (case send_telegram_request e ''sendPhoto'' bot_token data' of
           (Inr response, events) \<Rightarrow> (Inr (jsonify response, 200), events)
         | (Inl x, events) \<Rightarrow> (Inr (jsonify_error (exc_str x), 500), events)))))))))"

definition send_document :: "env \<Rightarrow> json \<Rightarrow> (py_exc + response) \<times> event list" where
  "send_document e data =
     (if \<not> py_truthy data then (Inr (jsonify_error ''No data provided'', 400), [])
      else (case py_contains ''chat_id'' data of
        Inl x \<Rightarrow> (Inl x, [])
      | Inr has_chat_id \<Rightarrow>
      (if \<not> has_chat_id
       then (Inr (jsonify_error ''Missing required field: chat_id'', 400), [])
       else (case py_contains ''document'' data of
         Inl x \<Rightarrow> (Inl x, [])
       | Inr has_document \<Rightarrow>
       (if \<not> has_document
        then (Inr (jsonify_error ''Missing required field: document'', 400), [])
        else (case py_pop ''bot_token'' (default_token e) data of
          Inl x \<Rightarrow> (Inl x, [])
        | Inr (bot_token, data') \<Rightarrow>
        (if \<not> py_truthy bot_token
         then (Inr (jsonify_error no_token_message, 400), [])
         else (case send_telegram_request e ''sendDocument'' bot_token data' of
           (Inr response, events) \<Rightarrow> (Inr (jsonify response, 200), events)
         | (Inl x, events) \<Rightarrow> (Inr (jsonify_error (exc_str x), 500), events)))))))))"

text \<open>
  The \<^verbatim>\<open>errorhandler(500)\<close> of the application answers an exception that a handler
  lets through.
\<close>

definition server_error :: "py_exc \<Rightarrow> response" where
  "server_error x = (jsonify_error ''Internal server error'', 500)"

subsection \<open>The three routes\<close>

datatype operation = SendMessage | SendPhoto | SendDocument

fun provider_method :: "operation \<Rightarrow> string" where
  "provider_method SendMessage = ''sendMessage''"
| "provider_method SendPhoto = ''sendPhoto''"
| "provider_method SendDocument = ''sendDocument''"

fun second_field :: "operation \<Rightarrow> string" where
  "second_field SendMessage = ''text''"
| "second_field SendPhoto = ''photo''"
| "second_field SendDocument = ''document''"

text \<open>The route table: \<^verbatim>\<open>POST /api/telegram/<operation>\<close> to its handler.\<close>

fun route :: "operation \<Rightarrow> env \<Rightarrow> json \<Rightarrow> (py_exc + response) \<times> event list" where
  "route SendMessage = send_message"
| "route SendPhoto = send_photo"
| "route SendDocument = send_document"

text \<open>What the client receives: the handler's response, or the answer of the 500 handler.\<close>

definition serve :: "operation \<Rightarrow> env \<Rightarrow> json \<Rightarrow> response" where
  "serve op e data =
     (case fst (route op e data) of Inl x \<Rightarrow> server_error x | Inr r \<Rightarrow> r)"

subsection \<open>Reading the request\<close>

text \<open>
  What the client sent, as \<^verbatim>\<open>request.json\<close> tells it apart: a request whose content type
  is not JSON (a request without body among them), a request of JSON content type whose
  body does not parse (an empty body among them), and a JSON document.
\<close>

datatype http_request = NotJson | Malformed | Json json

text \<open>
  \<^verbatim>\<open>request.json\<close> is \<^verbatim>\<open>get_json()\<close> with \<^verbatim>\<open>silent=False\<close>: on a request that is not JSON
  it aborts with 415 Unsupported Media Type, on a body that does not parse with
  400 Bad Request; \<open>Inl\<close> is the abort, with its status and description.
\<close>

fun request_json :: "http_request \<Rightarrow> (int \<times> string) + json" where
  "request_json NotJson = Inl (415, ''Unsupported Media Type'')"
| "request_json Malformed = Inl (400, ''Bad Request'')"
| "request_json (Json v) = Inr v"

text \<open>
  The body of an answer: a JSON document, or the HTML error page of the framework, given by
  its description. The application registers error handlers for 404 and 500 only, so an
  abort with another status is answered with the framework's own page.
\<close>

datatype page = JsonPage json | HtmlPage string

definition dispatch_request ::
  "operation \<Rightarrow> env \<Rightarrow> http_request \<Rightarrow> (page \<times> int) \<times> event list" where
  "dispatch_request op e req =
     (case request_json req of
        Inl (code, description) \<Rightarrow> ((HtmlPage description, code), [])
      | Inr data \<Rightarrow> ((JsonPage (fst (serve op e data)), snd (serve op e data)),
                     snd (route op e data)))"

section \<open>Auxiliary definitions\<close>

text \<open>
  The \<^verbatim>\<open>try\<close>/\<^verbatim>\<open>except\<close> that ends every handler: a returned value is answered with
  status 200, a caught exception with its \<^verbatim>\<open>str\<close> and status 500.
\<close>

definition relay :: "(py_exc + json) \<times> event list \<Rightarrow> (py_exc + response) \<times> event list" where
  "relay r = (case r of
      (Inr response, events) \<Rightarrow> (Inr (jsonify response, 200), events)
    | (Inl x, events) \<Rightarrow> (Inr (jsonify_error (exc_str x), 500), events))"

text \<open>The required fields of an operation, in the order the handler checks them.\<close>

definition required_fields :: "operation \<Rightarrow> string list" where
  "required_fields op = [''chat_id'', second_field op]"

text \<open>The outbound calls among the events of a request.\<close>

fun outbound_calls :: "event list \<Rightarrow> outbound_call list" where
  "outbound_calls [] = []"
| "outbound_calls (HttpPost c # evs) = c # outbound_calls evs"
| "outbound_calls (ForwarderCall m t p # evs) = outbound_calls evs"

fun is_nonempty_str :: "json \<Rightarrow> bool" where
  "is_nonempty_str (JStr s) = (s \<noteq> [])"
| "is_nonempty_str v = False"

text \<open>
  The value of \<^verbatim>\<open>data.pop('bot_token', DEFAULT_BOT_TOKEN)\<close> on the body \<open>kvs\<close>, and the
  outbound call that the handler of \<open>op\<close> makes for that body.
\<close>

definition resolved_token :: "env \<Rightarrow> (string \<times> json) list \<Rightarrow> json" where
  "resolved_token e kvs =
     (case dict_get ''bot_token'' kvs of Some v \<Rightarrow> v | None \<Rightarrow> default_token e)"

definition outbound :: "operation \<Rightarrow> env \<Rightarrow> (string \<times> json) list \<Rightarrow> outbound_call" where
  "outbound op e kvs =
     \<lparr>call_url = telegram_url e (resolved_token e kvs) (provider_method op),
      call_json = JObj (dict_del ''bot_token'' kvs), call_timeout = 10\<rparr>"

text \<open>
  The \<^verbatim>\<open>except\<close> clause of \<^verbatim>\<open>send_telegram_request\<close> as a function of the exception raised
  in its \<^verbatim>\<open>try\<close> block: a \<open>RequestException\<close> is replaced, any other exception passes.
\<close>

fun reraised :: "py_exc \<Rightarrow> py_exc" where
  "reraised (RequestException (Some r) m) =
     PyException (''Telegram API error ('' @ str_int (status_code r) @ ''): ''
        @ response_text r)"
| "reraised (RequestException None m) = PyException (''Request to Telegram API failed: '' @ m)"
| "reraised x = x"

subsection \<open>Concrete environments and requests\<close>

definition example_env :: "string option \<Rightarrow> (outbound_call \<Rightarrow> post_outcome) \<Rightarrow> env" where
  "example_env d net = \<lparr>DEFAULT_BOT_TOKEN = d, requests_post = net, py_repr = (\<lambda>v. ''?'')\<rparr>"

definition network_down :: "outbound_call \<Rightarrow> post_outcome" where
  "network_down c = PostRaises (RequestException None ''Read timed out.'')"

definition provider_answers :: "http_response \<Rightarrow> py_exc + json \<Rightarrow> outbound_call \<Rightarrow> post_outcome" where
  "provider_answers r parsed c = PostReturns r parsed"

definition chat_not_found :: http_response where
  "chat_not_found = Response 400 ''Bad Request: chat not found''"

definition not_modified :: http_response where
  "not_modified = Response 304 ''{}''"

text \<open>The required fields of the docstring of \<^verbatim>\<open>send_message\<close>.\<close>

definition message_fields :: "(string \<times> json) list" where
  "message_fields = [(''chat_id'', JStr ''123456789''), (''text'', JStr ''Hello from API!'')]"

definition photo_fields :: "(string \<times> json) list" where
  "photo_fields =
     [(''chat_id'', JStr ''123456789''), (''photo'', JStr ''https://example.com/image.jpg'')]"

definition document_fields :: "(string \<times> json) list" where
  "document_fields =
     [(''chat_id'', JStr ''123456789''), (''document'', JStr ''https://example.com/file.pdf'')]"


section \<open>Unfolding the handlers\<close>

lemma route_unfold:
  "route op e data =
     (if \<not> py_truthy data then (Inr (jsonify_error ''No data provided'', 400), [])
      else (case py_contains ''chat_id'' data of
        Inl x \<Rightarrow> (Inl x, [])
      | Inr has_chat_id \<Rightarrow>
      (if \<not> has_chat_id
       then (Inr (jsonify_error ''Missing required field: chat_id'', 400), [])
       else (case py_contains (second_field op) data of
         Inl x \<Rightarrow> (Inl x, [])
       | Inr has_field \<Rightarrow>
       (if \<not> has_field
        then (Inr (jsonify_error (''Missing required field: '' @ second_field op), 400), [])
        else (case py_pop ''bot_token'' (default_token e) data of
          Inl x \<Rightarrow> (Inl x, [])
        | Inr (bot_token, data') \<Rightarrow>
        (if \<not> py_truthy bot_token
         then (Inr (jsonify_error no_token_message, 400), [])
         else relay (send_telegram_request e (provider_method op) bot_token data'))))))))"
  by (cases op) (simp_all add: send_message_def send_photo_def send_document_def relay_def split: sum.split prod.split)

lemma forwarder_events:
  "snd (send_telegram_request e m tok ps) =
     [ForwarderCall m tok ps,
      HttpPost \<lparr>call_url = telegram_url e tok m, call_json = ps, call_timeout = 10\<rparr>]"
  by (simp add: send_telegram_request_def Let_def split: sum.splits py_exc.splits option.splits post_outcome.splits)

lemma relay_events: "snd (relay r) = snd r"
  by (simp add: relay_def split: prod.splits sum.splits)

lemma route_cases:
  "snd (route op e data) = [] \<or>
   (\<exists>kvs tok. data = JObj kvs \<and> kvs \<noteq> [] \<and> ''chat_id'' \<in> fst ` set kvs \<and> second_field op \<in> fst ` set kvs
      \<and> tok = (case dict_get ''bot_token'' kvs of Some v \<Rightarrow> v | None \<Rightarrow> default_token e)
      \<and> py_truthy tok
      \<and> route op e data = relay (send_telegram_request e (provider_method op) tok (JObj (dict_del ''bot_token'' kvs))))"
  by (cases data) (auto simp add: route_unfold split: sum.splits)

lemma relay_fst:
  "fst (relay r) =
     (case fst r of Inr v \<Rightarrow> Inr (jsonify v, 200)
      | Inl x \<Rightarrow> Inr (jsonify_error (exc_str x), 500))"
  by (simp add: relay_def split: prod.splits sum.splits)

lemma dict_del_keys: "fst ` set (dict_del k kvs) = fst ` set kvs - {k}"
  by (auto simp add: dict_del_def)

lemma dict_del_other: "k' \<noteq> k \<Longrightarrow> dict_get k' (dict_del k kvs) = dict_get k' kvs"
  by (induction kvs) (auto simp add: dict_get_def dict_del_def)

lemma forwarder_called:
  assumes "ForwarderCall m tok ps \<in> set (snd (route op e data))"
  obtains kvs where
    "data = JObj kvs" "m = provider_method op"
    "tok = (case dict_get ''bot_token'' kvs of Some v \<Rightarrow> v | None \<Rightarrow> default_token e)"
    "py_truthy tok" "ps = JObj (dict_del ''bot_token'' kvs)"
proof -
  from assms have "snd (route op e data) \<noteq> []" by auto
  with route_cases [of op e data] obtain kvs tok' where
    d: "data = JObj kvs"
    "tok' = (case dict_get ''bot_token'' kvs of Some v \<Rightarrow> v | None \<Rightarrow> default_token e)"
    "py_truthy tok'"
    and r: "route op e data =
       relay (send_telegram_request e (provider_method op) tok' (JObj (dict_del ''bot_token'' kvs)))"
    by blast
  from assms r have "m = provider_method op \<and> tok = tok' \<and> ps = JObj (dict_del ''bot_token'' kvs)"
    by (simp add: relay_events forwarder_events)
  with d show thesis using that by blast
qed

text \<open>A body with both required fields and a token that counts as true is dispatched.\<close>

lemma route_dispatch:
  assumes "''chat_id'' \<in> fst ` set kvs" and "second_field op \<in> fst ` set kvs"
    and "py_truthy (resolved_token e kvs)"
  shows "route op e (JObj kvs) =
     relay (send_telegram_request e (provider_method op) (resolved_token e kvs)
              (JObj (dict_del ''bot_token'' kvs)))"
proof -
  from assms(1) have "kvs \<noteq> []" by auto
  with assms show ?thesis
    by (simp add: route_unfold resolved_token_def)
qed

lemma dispatch_events:
  "snd (send_telegram_request e (provider_method op) (resolved_token e kvs)
          (JObj (dict_del ''bot_token'' kvs))) =
     [ForwarderCall (provider_method op) (resolved_token e kvs)
        (JObj (dict_del ''bot_token'' kvs)),
      HttpPost (outbound op e kvs)]"
  by (simp add: forwarder_events outbound_def)

text \<open>The result of the forwarder, by what the network does with its call.\<close>

lemma forwarder_result:
  "fst (send_telegram_request e m tok ps) =
     (case requests_post e \<lparr>call_url = telegram_url e tok m, call_json = ps,
                             call_timeout = 10\<rparr> of
        PostRaises x \<Rightarrow> Inl (reraised x)
      | PostReturns r parsed \<Rightarrow>
          (case raise_for_status r of
             Inl x \<Rightarrow> Inl (reraised x)
           | Inr u \<Rightarrow> (case parsed of Inl x \<Rightarrow> Inl (reraised x) | Inr v \<Rightarrow> Inr v)))"
  by (simp add: send_telegram_request_def Let_def
      split: post_outcome.splits sum.splits py_exc.splits option.splits)

lemma dispatch_result:
  "fst (send_telegram_request e (provider_method op) (resolved_token e kvs)
          (JObj (dict_del ''bot_token'' kvs))) =
     (case requests_post e (outbound op e kvs) of
        PostRaises x \<Rightarrow> Inl (reraised x)
      | PostReturns r parsed \<Rightarrow>
          (case raise_for_status r of
             Inl x \<Rightarrow> Inl (reraised x)
           | Inr u \<Rightarrow> (case parsed of Inl x \<Rightarrow> Inl (reraised x) | Inr v \<Rightarrow> Inr v)))"
  by (simp add: forwarder_result outbound_def)

lemma route_eq:
  "fst r = a \<Longrightarrow> snd r = b \<Longrightarrow> r = (a, b)"
  by auto

subsection \<open>Sorting the keys\<close>





subsection \<open>A dispatched request\<close>

lemma dispatched_answer:
  assumes "''chat_id'' \<in> fst ` set kvs" and "second_field op \<in> fst ` set kvs"
    and "py_truthy (resolved_token e kvs)"
    and "fst (send_telegram_request e (provider_method op) (resolved_token e kvs)
          (JObj (dict_del ''bot_token'' kvs))) = res"
  shows "route op e (JObj kvs) =
     ((case res of Inr v \<Rightarrow> Inr (jsonify v, 200)
       | Inl x \<Rightarrow> Inr (jsonify_error (exc_str x), 500)),
      [ForwarderCall (provider_method op) (resolved_token e kvs)
         (JObj (dict_del ''bot_token'' kvs)),
       HttpPost (outbound op e kvs)])"
proof (rule route_eq)
  show "fst (route op e (JObj kvs)) =
      (case res of Inr v \<Rightarrow> Inr (jsonify v, 200)
       | Inl x \<Rightarrow> Inr (jsonify_error (exc_str x), 500))"
    using assms by (simp add: route_dispatch relay_fst)
  show "snd (route op e (JObj kvs)) =
      [ForwarderCall (provider_method op) (resolved_token e kvs)
         (JObj (dict_del ''bot_token'' kvs)),
       HttpPost (outbound op e kvs)]"
    using assms(1-3) by (simp add: route_dispatch relay_events dispatch_events)
qed

section \<open>Provider errors\<close>

text \<open>
  Claim C1, as the code has it. For every send operation and every body with both required
  fields and a token that counts as true: when the provider answers the outbound call with
  a 4XX or 5XX status, the statuses \<^verbatim>\<open>raise_for_status\<close> rejects, and body text \<open>B\<close>, the
  forwarder is called once, makes this one call and raises
  \<^verbatim>\<open>Exception("Telegram API error (<status>): <B>")\<close>, and the client receives status 500
  with the body \<^verbatim>\<open>{"error": "Telegram API error (<status>): <B>"}\<close>. The witness is the
  example of the specification: status 400, body \<^verbatim>\<open>Bad Request: chat not found\<close>.
\<close>

theorem provider_error_status_relayed:
  assumes "''chat_id'' \<in> fst ` set kvs" and "second_field op \<in> fst ` set kvs"
    and "py_truthy (resolved_token e kvs)"
    and "requests_post e (outbound op e kvs) = PostReturns r parsed"
    and "400 \<le> status_code r" and "status_code r < 600"
  shows "route op e (JObj kvs) =
      (Inr (jsonify_error
              (''Telegram API error ('' @ str_int (status_code r) @ ''): '' @ response_text r),
            500),
       [ForwarderCall (provider_method op) (resolved_token e kvs)
          (JObj (dict_del ''bot_token'' kvs)),
        HttpPost (outbound op e kvs)])
    \<and> fst (send_telegram_request e (provider_method op) (resolved_token e kvs)
             (JObj (dict_del ''bot_token'' kvs))) =
        Inl (PyException
          (''Telegram API error ('' @ str_int (status_code r) @ ''): '' @ response_text r))
    \<and> serve op e (JObj kvs) =
        (JObj [(''error'', JStr
           (''Telegram API error ('' @ str_int (status_code r) @ ''): '' @ response_text r))],
         500)"
proof -
  let ?m = "''Telegram API error ('' @ str_int (status_code r) @ ''): '' @ response_text r"
  have f: "fst (send_telegram_request e (provider_method op) (resolved_token e kvs)
             (JObj (dict_del ''bot_token'' kvs))) = Inl (PyException ?m)"
    using assms(4-6) by (simp add: dispatch_result raise_for_status_def)
  from dispatched_answer [OF assms(1-3) f]
  have r: "route op e (JObj kvs) =
      (Inr (jsonify_error ?m, 500),
       [ForwarderCall (provider_method op) (resolved_token e kvs)
          (JObj (dict_del ''bot_token'' kvs)),
        HttpPost (outbound op e kvs)])"
    by simp
  then have "serve op e (JObj kvs) = (JObj [(''error'', JStr ?m)], 500)"
    by (simp add: serve_def jsonify_error_def)
  with f r show ?thesis by simp
qed

theorem provider_error_status_relayed_witness:
  "''chat_id'' \<in> fst ` set message_fields \<and> second_field SendMessage \<in> fst ` set message_fields
   \<and> py_truthy (resolved_token (example_env (Some ''TOKEN'')
         (provider_answers chat_not_found (Inl (ValueError ''not JSON'')))) message_fields)
   \<and> requests_post (example_env (Some ''TOKEN'')
         (provider_answers chat_not_found (Inl (ValueError ''not JSON''))))
        (outbound SendMessage (example_env (Some ''TOKEN'')
           (provider_answers chat_not_found (Inl (ValueError ''not JSON'')))) message_fields)
      = PostReturns chat_not_found (Inl (ValueError ''not JSON''))
   \<and> 400 \<le> status_code chat_not_found \<and> status_code chat_not_found < 600
   \<and> serve SendMessage
        (example_env (Some ''TOKEN'') (provider_answers chat_not_found (Inl (ValueError ''not JSON''))))
        (JObj message_fields)
      = (JObj [(''error'', JStr ''Telegram API error (400): Bad Request: chat not found'')], 500)"
proof -
  let ?e = "example_env (Some ''TOKEN'') (provider_answers chat_not_found (Inl (ValueError ''not JSON'')))"
  have h: "''chat_id'' \<in> fst ` set message_fields"
    "second_field SendMessage \<in> fst ` set message_fields"
    "py_truthy (resolved_token ?e message_fields)"
    "requests_post ?e (outbound SendMessage ?e message_fields)
       = PostReturns chat_not_found (Inl (ValueError ''not JSON''))"
    "400 \<le> status_code chat_not_found" "status_code chat_not_found < 600"
    by (simp_all add: message_fields_def resolved_token_def dict_get_def default_token_def
        example_env_def provider_answers_def chat_not_found_def)
  have s: "str_int 400 = ''400''"
    by (simp add: str_int_def str_nat.simps digit_char_def)
  from provider_error_status_relayed [OF h] h show ?thesis
    by (simp add: chat_not_found_def s)
qed

text \<open>
  Claim C1 as written, for every status outside the success range, fails: a status below
  400 that is not 2XX passes \<^verbatim>\<open>raise_for_status\<close>. A response with status 304 whose body
  parses is answered like a success, with status 200.
\<close>

theorem status_304_counterexample:
  "\<not> (200 \<le> status_code not_modified \<and> status_code not_modified < 300)
   \<and> requests_post (example_env (Some ''TOKEN'') (provider_answers not_modified (Inr (JObj []))))
        (outbound SendMessage
           (example_env (Some ''TOKEN'') (provider_answers not_modified (Inr (JObj []))))
           message_fields)
      = PostReturns not_modified (Inr (JObj []))
   \<and> serve SendMessage
        (example_env (Some ''TOKEN'') (provider_answers not_modified (Inr (JObj []))))
        (JObj message_fields)
      = (JObj [], 200)"
  by (simp add: serve_def send_message_def message_fields_def dict_get_def dict_del_def
      default_token_def example_env_def provider_answers_def not_modified_def
      send_telegram_request_def Let_def raise_for_status_def)

section \<open>Successful provider responses\<close>




section \<open>Transport failures\<close>

text \<open>
  Claim C8. For every send operation and every body with both required fields and a token
  that counts as true: when the outbound call fails below HTTP (a \<open>RequestException\<close>
  with no response, such as a connection error or a timeout, with text \<open>reason\<close>), the
  forwarder raises an exception that carries no status code and the message
  \<^verbatim>\<open>Request to Telegram API failed: <reason>\<close>, the client receives status 500 with that
  message, and the request makes exactly one outbound call: no retry.
\<close>

theorem transport_failure_reported:
  assumes "''chat_id'' \<in> fst ` set kvs" and "second_field op \<in> fst ` set kvs"
    and "py_truthy (resolved_token e kvs)"
    and "requests_post e (outbound op e kvs) = PostRaises (RequestException None reason)"
  shows "route op e (JObj kvs) =
      (Inr (jsonify_error (''Request to Telegram API failed: '' @ reason), 500),
       [ForwarderCall (provider_method op) (resolved_token e kvs)
          (JObj (dict_del ''bot_token'' kvs)),
        HttpPost (outbound op e kvs)])
    \<and> fst (send_telegram_request e (provider_method op) (resolved_token e kvs)
             (JObj (dict_del ''bot_token'' kvs))) =
        Inl (PyException (''Request to Telegram API failed: '' @ reason))
    \<and> serve op e (JObj kvs) =
        (JObj [(''error'', JStr (''Request to Telegram API failed: '' @ reason))], 500)
    \<and> outbound_calls (snd (route op e (JObj kvs))) = [outbound op e kvs]"
proof -
  let ?m = "''Request to Telegram API failed: '' @ reason"
  have f: "fst (send_telegram_request e (provider_method op) (resolved_token e kvs)
             (JObj (dict_del ''bot_token'' kvs))) = Inl (PyException ?m)"
    using assms(4) by (simp add: dispatch_result)
  from dispatched_answer [OF assms(1-3) f]
  have r: "route op e (JObj kvs) =
      (Inr (jsonify_error ?m, 500),
       [ForwarderCall (provider_method op) (resolved_token e kvs)
          (JObj (dict_del ''bot_token'' kvs)),
        HttpPost (outbound op e kvs)])"
    by simp
  then have s: "serve op e (JObj kvs) = (JObj [(''error'', JStr ?m)], 500)"
    by (simp add: serve_def jsonify_error_def)
  from r have "outbound_calls (snd (route op e (JObj kvs))) = [outbound op e kvs]"
    by simp
  with f r s show ?thesis by simp
qed

theorem transport_failure_reported_witness:
  "''chat_id'' \<in> fst ` set document_fields
   \<and> second_field SendDocument \<in> fst ` set document_fields
   \<and> py_truthy (resolved_token (example_env (Some ''TOKEN'') network_down) document_fields)
   \<and> requests_post (example_env (Some ''TOKEN'') network_down)
        (outbound SendDocument (example_env (Some ''TOKEN'') network_down) document_fields)
      = PostRaises (RequestException None ''Read timed out.'')
   \<and> serve SendDocument (example_env (Some ''TOKEN'') network_down) (JObj document_fields)
      = (JObj [(''error'', JStr ''Request to Telegram API failed: Read timed out.'')], 500)
   \<and> outbound_calls (snd (route SendDocument (example_env (Some ''TOKEN'') network_down)
                  (JObj document_fields)))
      = [\<lparr>call_url = ''https://api.telegram.org/botTOKEN/sendDocument'',
             call_json = JObj document_fields, call_timeout = 10\<rparr>]"
proof -
  let ?e = "example_env (Some ''TOKEN'') network_down"
  have h: "''chat_id'' \<in> fst ` set document_fields"
    "second_field SendDocument \<in> fst ` set document_fields"
    "py_truthy (resolved_token ?e document_fields)"
    "requests_post ?e (outbound SendDocument ?e document_fields)
       = PostRaises (RequestException None ''Read timed out.'')"
    by (simp_all add: document_fields_def resolved_token_def dict_get_def default_token_def
        example_env_def network_down_def)
  have o: "outbound SendDocument ?e document_fields =
      \<lparr>call_url = ''https://api.telegram.org/botTOKEN/sendDocument'',
             call_json = JObj document_fields, call_timeout = 10\<rparr>"
    by (simp add: outbound_def resolved_token_def dict_get_def dict_del_def default_token_def
        example_env_def telegram_url_def document_fields_def)
  from transport_failure_reported [OF h] h show ?thesis
    by (simp add: o)
qed

section \<open>Provider responses that are not JSON\<close>

text \<open>
  Claim C2, as the code has it. For every send operation and every body with both required
  fields and a token that counts as true: when the provider answers the outbound call with
  a status that \<^verbatim>\<open>raise_for_status\<close> accepts and \<^verbatim>\<open>response.json()\<close> raises the exception
  \<open>x\<close>, the exception \<open>reraised x\<close> leaves the forwarder, the handler catches it and the
  client receives status 500 with \<^verbatim>\<open>{"error": <its message>}\<close>; nothing reaches the
  application's 500 handler. The forwarder replaces \<open>x\<close> by its own error, in the form
  of a transport failure, only when \<open>x\<close> is a \<open>RequestException\<close>.
\<close>

theorem parse_failure_answered:
  assumes "''chat_id'' \<in> fst ` set kvs" and "second_field op \<in> fst ` set kvs"
    and "py_truthy (resolved_token e kvs)"
    and "requests_post e (outbound op e kvs) = PostReturns r (Inl x)"
    and "\<not> (400 \<le> status_code r \<and> status_code r < 600)"
  shows "route op e (JObj kvs) =
      (Inr (jsonify_error (exc_str (reraised x)), 500),
       [ForwarderCall (provider_method op) (resolved_token e kvs)
          (JObj (dict_del ''bot_token'' kvs)),
        HttpPost (outbound op e kvs)])
    \<and> fst (send_telegram_request e (provider_method op) (resolved_token e kvs)
             (JObj (dict_del ''bot_token'' kvs))) = Inl (reraised x)
    \<and> serve op e (JObj kvs) = (JObj [(''error'', JStr (exc_str (reraised x)))], 500)"
proof -
  have f: "fst (send_telegram_request e (provider_method op) (resolved_token e kvs)
             (JObj (dict_del ''bot_token'' kvs))) = Inl (reraised x)"
    using assms(4,5) by (auto simp add: dispatch_result raise_for_status_def)
  from dispatched_answer [OF assms(1-3) f]
  have r: "route op e (JObj kvs) =
      (Inr (jsonify_error (exc_str (reraised x)), 500),
       [ForwarderCall (provider_method op) (resolved_token e kvs)
          (JObj (dict_del ''bot_token'' kvs)),
        HttpPost (outbound op e kvs)])"
    by simp
  then have "serve op e (JObj kvs) = (JObj [(''error'', JStr (exc_str (reraised x)))], 500)"
    by (simp add: serve_def jsonify_error_def)
  with f r show ?thesis by simp
qed

theorem parse_failure_answered_witness:
  "''chat_id'' \<in> fst ` set message_fields \<and> second_field SendMessage \<in> fst ` set message_fields
   \<and> py_truthy (resolved_token (example_env (Some ''TOKEN'') (provider_answers (Response 200 ''<html>'')
             (Inl (RequestException None ''Expecting value: line 1 column 1 (char 0)''))))
          message_fields)
   \<and> \<not> (400 \<le> status_code (Response 200 ''<html>'') \<and> status_code (Response 200 ''<html>'') < 600)
   \<and> route SendMessage
        (example_env (Some ''TOKEN'') (provider_answers (Response 200 ''<html>'')
             (Inl (RequestException None ''Expecting value: line 1 column 1 (char 0)''))))
        (JObj message_fields)
      = (Inr (JObj [(''error'', JStr
           ''Request to Telegram API failed: Expecting value: line 1 column 1 (char 0)'')], 500),
         [ForwarderCall ''sendMessage'' (JStr ''TOKEN'') (JObj message_fields),
          HttpPost \<lparr>call_url = ''https://api.telegram.org/botTOKEN/sendMessage'',
             call_json = JObj message_fields, call_timeout = 10\<rparr>])"
proof -
  let ?x = "RequestException None ''Expecting value: line 1 column 1 (char 0)''"
  let ?e = "example_env (Some ''TOKEN'') (provider_answers (Response 200 ''<html>'') (Inl ?x))"
  have h: "''chat_id'' \<in> fst ` set message_fields"
    "second_field SendMessage \<in> fst ` set message_fields"
    "py_truthy (resolved_token ?e message_fields)"
    "requests_post ?e (outbound SendMessage ?e message_fields)
       = PostReturns (Response 200 ''<html>'') (Inl ?x)"
    "\<not> (400 \<le> status_code (Response 200 ''<html>'')
              \<and> status_code (Response 200 ''<html>'') < 600)"
    by (simp_all add: message_fields_def resolved_token_def dict_get_def default_token_def
        example_env_def provider_answers_def)
  have o: "outbound SendMessage ?e message_fields =
      \<lparr>call_url = ''https://api.telegram.org/botTOKEN/sendMessage'',
             call_json = JObj message_fields, call_timeout = 10\<rparr>"
    "resolved_token ?e message_fields = JStr ''TOKEN''"
    "dict_del ''bot_token'' message_fields = message_fields"
    by (simp_all add: outbound_def resolved_token_def dict_get_def dict_del_def default_token_def
        example_env_def telegram_url_def message_fields_def)
  from parse_failure_answered [OF h] h show ?thesis
    by (simp add: o jsonify_error_def)
qed

text \<open>
  Claim C2 as written, with a forwarder that always produces its own error, fails: the
  \<^verbatim>\<open>except\<close> clause names \<open>RequestException\<close> only. A parse exception of another class,
  here a \<open>ValueError\<close>, leaves \<^verbatim>\<open>send_telegram_request\<close> as it was raised.
\<close>

theorem raw_parse_exception_counterexample:
  "requests_post (example_env (Some ''TOKEN'') (provider_answers (Response 200 ''<html>'')
             (Inl (ValueError ''Expecting value: line 1 column 1 (char 0)''))))
        \<lparr>call_url = ''https://api.telegram.org/botTOKEN/sendMessage'',
             call_json = JObj message_fields, call_timeout = 10\<rparr>
      = PostReturns (Response 200 ''<html>'')
          (Inl (ValueError ''Expecting value: line 1 column 1 (char 0)''))
   \<and> \<not> (400 \<le> status_code (Response 200 ''<html>'') \<and> status_code (Response 200 ''<html>'') < 600)
   \<and> fst (send_telegram_request
        (example_env (Some ''TOKEN'') (provider_answers (Response 200 ''<html>'')
             (Inl (ValueError ''Expecting value: line 1 column 1 (char 0)''))))
        ''sendMessage'' (JStr ''TOKEN'') (JObj message_fields))
      = Inl (ValueError ''Expecting value: line 1 column 1 (char 0)'')
   \<and> ValueError ''Expecting value: line 1 column 1 (char 0)''
      \<noteq> PyException
          ''Request to Telegram API failed: Expecting value: line 1 column 1 (char 0)''"
  by (simp add: send_telegram_request_def Let_def telegram_url_def example_env_def
      provider_answers_def raise_for_status_def)

section \<open>Requests without data\<close>

text \<open>
  Claim C6, as the code has it. For each of the three send operations, a request whose body
  parses to a JSON value that Python takes as false (\<^verbatim>\<open>null\<close>, an empty object, an empty
  list, an empty string, zero, \<^verbatim>\<open>false\<close>) is answered with status 400 and
  \<^verbatim>\<open>{"error": "No data provided"}\<close>, and nothing is sent out. A body that does not parse,
  and a request that is not JSON, does not reach this check: \<^verbatim>\<open>request.json\<close> aborts and
  the framework answers with its own page, status 400 or 415.
\<close>

theorem no_data_provided:
  assumes "\<not> py_truthy data"
  shows "dispatch_request op e (Json data) =
           ((JsonPage (JObj [(''error'', JStr ''No data provided'')]), 400), [])
       \<and> route op e data = (Inr (jsonify_error ''No data provided'', 400), [])
       \<and> serve op e data = (JObj [(''error'', JStr ''No data provided'')], 400)
       \<and> dispatch_request op e Malformed = ((HtmlPage ''Bad Request'', 400), [])
       \<and> dispatch_request op e NotJson = ((HtmlPage ''Unsupported Media Type'', 415), [])"
  using assms by (simp add: dispatch_request_def route_unfold serve_def jsonify_error_def)

theorem no_data_provided_witness:
  "\<not> py_truthy JNull \<and> \<not> py_truthy (JObj [])
   \<and> dispatch_request SendMessage (example_env (Some ''TOKEN'') network_down) (Json JNull)
        = ((JsonPage (JObj [(''error'', JStr ''No data provided'')]), 400), [])
   \<and> dispatch_request SendDocument (example_env (Some ''TOKEN'') network_down) (Json (JObj []))
        = ((JsonPage (JObj [(''error'', JStr ''No data provided'')]), 400), [])"
  using no_data_provided [of JNull SendMessage "example_env (Some ''TOKEN'') network_down"]
    no_data_provided [of "JObj []" SendDocument "example_env (Some ''TOKEN'') network_down"]
  by simp

text \<open>
  Claim C6 as written, with \<^verbatim>\<open>No data provided\<close> for an absent or unparseable body, fails:
  neither answer is the JSON document of the handler.
\<close>

theorem unparseable_body_counterexample:
  "dispatch_request SendMessage (example_env (Some ''TOKEN'') network_down) Malformed
     = ((HtmlPage ''Bad Request'', 400), [])
   \<and> dispatch_request SendMessage (example_env (Some ''TOKEN'') network_down) NotJson
     = ((HtmlPage ''Unsupported Media Type'', 415), [])
   \<and> HtmlPage ''Bad Request'' \<noteq> JsonPage (JObj [(''error'', JStr ''No data provided'')])
   \<and> HtmlPage ''Unsupported Media Type''
        \<noteq> JsonPage (JObj [(''error'', JStr ''No data provided'')])"
  by (simp add: dispatch_request_def)

section \<open>Missing fields\<close>

text \<open>
  Claim C4. For each of the three send operations and every non-empty JSON object as body:
  if \<open>name\<close> is the first of the required fields, in the order \<^verbatim>\<open>chat_id\<close> and then
  \<^verbatim>\<open>text\<close>, \<^verbatim>\<open>photo\<close> or \<^verbatim>\<open>document\<close>, that is not a key of the body, the response is
  status 400 with \<^verbatim>\<open>{"error": "Missing required field: <name>"}\<close>: that field and no other.
\<close>

theorem first_missing_field_reported:
  assumes "kvs \<noteq> []"
    and "find (\<lambda>f. f \<notin> fst ` set kvs) (required_fields op) = Some name"
  shows "route op e (JObj kvs) = (Inr (jsonify_error (''Missing required field: '' @ name), 400), [])
       \<and> serve op e (JObj kvs) = (JObj [(''error'', JStr (''Missing required field: '' @ name))], 400)"
  using assms
  by (auto simp add: route_unfold serve_def jsonify_error_def required_fields_def
      split: if_splits)

theorem first_missing_field_reported_witness:
  "[(''caption'', JStr ''no chat, no photo'')] \<noteq> []
   \<and> find (\<lambda>f. f \<notin> fst ` set [(''caption'', JStr ''no chat, no photo'')])
        (required_fields SendPhoto) = Some ''chat_id''
   \<and> serve SendPhoto (example_env (Some ''TOKEN'') network_down)
        (JObj [(''caption'', JStr ''no chat, no photo'')])
      = (JObj [(''error'', JStr ''Missing required field: chat_id'')], 400)
   \<and> find (\<lambda>f. f \<notin> fst ` set [(''chat_id'', JStr ''123456789'')])
        (required_fields SendMessage) = Some ''text''
   \<and> serve SendMessage (example_env (Some ''TOKEN'') network_down)
        (JObj [(''chat_id'', JStr ''123456789'')])
      = (JObj [(''error'', JStr ''Missing required field: text'')], 400)"
proof -
  have h2: "find (\<lambda>f. f \<notin> fst ` set [(''caption'', JStr ''no chat, no photo'')])
        (required_fields SendPhoto) = Some ''chat_id''"
    by (simp add: required_fields_def)
  have h3: "find (\<lambda>f. f \<notin> fst ` set [(''chat_id'', JStr ''123456789'')])
        (required_fields SendMessage) = Some ''text''"
    by (simp add: required_fields_def)
  from first_missing_field_reported [OF _ h2, of "example_env (Some ''TOKEN'') network_down"]
    first_missing_field_reported [OF _ h3, of "example_env (Some ''TOKEN'') network_down"] h2 h3
  show ?thesis by simp
qed

section \<open>Credentials\<close>

text \<open>
  Claim C7. For each of the three send operations: a body that has both required fields
  and no \<^verbatim>\<open>bot_token\<close> key, with no \<^verbatim>\<open>TELEGRAM_BOT_TOKEN\<close> in the environment, is answered
  with status 400 and the fixed message about the missing token; the list of events is
  empty, so \<^verbatim>\<open>send_telegram_request\<close> is not called.
\<close>

theorem no_credential_available:
  assumes "''chat_id'' \<in> fst ` set kvs" and "second_field op \<in> fst ` set kvs"
    and "''bot_token'' \<notin> fst ` set kvs"
    and "DEFAULT_BOT_TOKEN e = None"
  shows "route op e (JObj kvs) = (Inr (jsonify_error no_token_message, 400), [])
       \<and> serve op e (JObj kvs) =
           (JObj [(''error'', JStr
              ''No bot token provided and TELEGRAM_BOT_TOKEN environment variable not set'')],
            400)"
proof -
  from assms(3) have "dict_get ''bot_token'' kvs = None"
    by (simp add: dict_get_def map_of_eq_None_iff)
  with assms(1,2,4) show ?thesis
    by (auto simp add: route_unfold serve_def jsonify_error_def default_token_def
        no_token_message_def)
qed

theorem no_credential_available_witness:
  "''chat_id'' \<in> fst ` set document_fields \<and> second_field SendDocument \<in> fst ` set document_fields
   \<and> ''bot_token'' \<notin> fst ` set document_fields
   \<and> DEFAULT_BOT_TOKEN (example_env None network_down) = None
   \<and> route SendDocument (example_env None network_down) (JObj document_fields)
      = (Inr (JObj [(''error'', JStr
              ''No bot token provided and TELEGRAM_BOT_TOKEN environment variable not set'')],
            400), [])"
proof -
  have h: "''chat_id'' \<in> fst ` set document_fields"
    "second_field SendDocument \<in> fst ` set document_fields"
    "''bot_token'' \<notin> fst ` set document_fields"
    "DEFAULT_BOT_TOKEN (example_env None network_down) = None"
    by (simp_all add: document_fields_def example_env_def)
  from no_credential_available [OF h] h show ?thesis
    by (simp add: jsonify_error_def no_token_message_def)
qed

text \<open>
  Claim C3. For every send operation and every body, a JSON object, that has both required
  fields and the key \<^verbatim>\<open>bot_token\<close> with a value \<open>tok\<close> that counts as true, so that no check
  of the handler rejects it: \<^verbatim>\<open>send_telegram_request\<close> is called once, with \<open>tok\<close> as its
  token, and its \<open>params\<close> are the body without the key \<^verbatim>\<open>bot_token\<close>: the other keys
  are all there and each has the value it had.
\<close>

theorem body_credential_forwarded:
  assumes "''chat_id'' \<in> fst ` set kvs" and "second_field op \<in> fst ` set kvs"
    and "dict_get ''bot_token'' kvs = Some tok" and "py_truthy tok"
  shows "snd (route op e (JObj kvs)) =
      [ForwarderCall (provider_method op) tok (JObj (dict_del ''bot_token'' kvs)),
       HttpPost \<lparr>call_url = telegram_url e tok (provider_method op),
                 call_json = JObj (dict_del ''bot_token'' kvs), call_timeout = 10\<rparr>]
    \<and> fst ` set (dict_del ''bot_token'' kvs) = fst ` set kvs - {''bot_token''}
    \<and> (\<forall>k. k \<noteq> ''bot_token'' \<longrightarrow> dict_get k (dict_del ''bot_token'' kvs) = dict_get k kvs)"
proof -
  from assms(3) have t: "resolved_token e kvs = tok"
    by (simp add: resolved_token_def)
  with assms(4) have "py_truthy (resolved_token e kvs)" by simp
  from route_dispatch [OF assms(1,2) this]
  have "snd (route op e (JObj kvs)) =
      [ForwarderCall (provider_method op) tok (JObj (dict_del ''bot_token'' kvs)),
       HttpPost \<lparr>call_url = telegram_url e tok (provider_method op),
                 call_json = JObj (dict_del ''bot_token'' kvs), call_timeout = 10\<rparr>]"
    by (simp add: t relay_events forwarder_events)
  then show ?thesis
    by (simp add: dict_del_keys dict_del_other)
qed

theorem body_credential_forwarded_witness:
  "''chat_id'' \<in> fst ` set ((''bot_token'', JStr ''TOKEN'') # message_fields)
   \<and> second_field SendMessage \<in> fst ` set ((''bot_token'', JStr ''TOKEN'') # message_fields)
   \<and> dict_get ''bot_token'' ((''bot_token'', JStr ''TOKEN'') # message_fields)
        = Some (JStr ''TOKEN'')
   \<and> py_truthy (JStr ''TOKEN'')
   \<and> snd (route SendMessage (example_env None network_down)
        (JObj ((''bot_token'', JStr ''TOKEN'') # message_fields))) =
      [ForwarderCall ''sendMessage'' (JStr ''TOKEN'')
         (JObj [(''chat_id'', JStr ''123456789''), (''text'', JStr ''Hello from API!'')]),
       HttpPost \<lparr>call_url = ''https://api.telegram.org/botTOKEN/sendMessage'',
                 call_json = JObj [(''chat_id'', JStr ''123456789''),
                                   (''text'', JStr ''Hello from API!'')],
                 call_timeout = 10\<rparr>]"
proof -
  let ?kvs = "(''bot_token'', JStr ''TOKEN'') # message_fields"
  let ?e = "example_env None network_down"
  have h: "''chat_id'' \<in> fst ` set ?kvs" "second_field SendMessage \<in> fst ` set ?kvs"
    "dict_get ''bot_token'' ?kvs = Some (JStr ''TOKEN'')" "py_truthy (JStr ''TOKEN'')"
    by (simp_all add: dict_get_def message_fields_def)
  from body_credential_forwarded [OF h, of ?e] h show ?thesis
    by (simp add: dict_del_def message_fields_def telegram_url_def example_env_def)
qed

text \<open>
  Claim C9, as the code has it. Whenever a handler calls \<^verbatim>\<open>send_telegram_request\<close>, the
  token it passes is a value that Python takes as true: not empty when it is a string, and
  a non-empty string whenever the body has no \<^verbatim>\<open>bot_token\<close> key, so that the token is the
  one of the environment. The \<open>params\<close> passed with it are an object without the key
  \<^verbatim>\<open>bot_token\<close>.
\<close>

theorem dispatch_invariant:
  assumes "ForwarderCall m tok ps \<in> set (snd (route op e data))"
  shows "py_truthy tok
    \<and> (\<forall>s. tok = JStr s \<longrightarrow> s \<noteq> [])
    \<and> (\<forall>kvs. data = JObj kvs \<and> ''bot_token'' \<notin> fst ` set kvs \<longrightarrow> is_nonempty_str tok)
    \<and> (\<exists>kvs'. ps = JObj kvs' \<and> ''bot_token'' \<notin> fst ` set kvs')"
proof -
  from assms obtain kvs where
    d: "data = JObj kvs"
    and t: "tok = (case dict_get ''bot_token'' kvs of Some v \<Rightarrow> v | None \<Rightarrow> default_token e)"
    and p: "py_truthy tok" and ps: "ps = JObj (dict_del ''bot_token'' kvs)"
    by (rule forwarder_called)
  have a: "\<forall>s. tok = JStr s \<longrightarrow> s \<noteq> []"
    using p by auto
  have b: "is_nonempty_str tok" if "''bot_token'' \<notin> fst ` set kvs"
  proof -
    from that have "dict_get ''bot_token'' kvs = None"
      by (simp add: dict_get_def map_of_eq_None_iff)
    with t have "tok = default_token e" by simp
    with p show ?thesis
      by (cases "DEFAULT_BOT_TOKEN e") (simp_all add: default_token_def)
  qed
  have c: "''bot_token'' \<notin> fst ` set (dict_del ''bot_token'' kvs)"
    by (simp add: dict_del_keys)
  from p a b c d ps show ?thesis by auto
qed

theorem dispatch_invariant_witness:
  "ForwarderCall ''sendMessage'' (JStr ''TOKEN'') (JObj message_fields)
     \<in> set (snd (route SendMessage (example_env (Some ''TOKEN'') network_down)
                   (JObj message_fields)))
   \<and> py_truthy (JStr ''TOKEN'') \<and> is_nonempty_str (JStr ''TOKEN'')
   \<and> ''bot_token'' \<notin> fst ` set message_fields"
proof -
  have h: "ForwarderCall ''sendMessage'' (JStr ''TOKEN'') (JObj message_fields)
     \<in> set (snd (route SendMessage (example_env (Some ''TOKEN'') network_down)
                   (JObj message_fields)))"
    by (simp add: send_message_def message_fields_def dict_get_def dict_del_def default_token_def
        example_env_def send_telegram_request_def Let_def network_down_def
        split: prod.splits sum.splits)
  from dispatch_invariant [OF h] h show ?thesis
    by (auto simp add: message_fields_def)
qed

text \<open>
  Claim C9 as written, with a non-empty string as token, fails: the body may give any JSON
  value under \<^verbatim>\<open>bot_token\<close>, and the handler tests its truth value only. With
  \<^verbatim>\<open>"bot_token": 123\<close> the forwarder is called with the number 123.
\<close>

theorem credential_not_a_string_counterexample:
  "ForwarderCall ''sendMessage'' (JInt 123) (JObj message_fields)
     \<in> set (snd (route SendMessage (example_env None network_down)
                   (JObj ((''bot_token'', JInt 123) # message_fields))))
   \<and> \<not> is_nonempty_str (JInt 123)"
  by (simp add: send_message_def message_fields_def dict_get_def dict_del_def default_token_def
      example_env_def send_telegram_request_def Let_def network_down_def
      split: prod.splits sum.splits)

text \<open>
  Claim C10, as the code has it. For each of the three send operations: a body that has both
  required fields and the key \<^verbatim>\<open>bot_token\<close> with a value that Python takes as false (the
  empty string, \<^verbatim>\<open>null\<close>, zero, \<^verbatim>\<open>false\<close>, an empty list or object) is answered with status
  400 and the message about the missing token, whatever the environment holds: the
  default token does not stand in for it.
\<close>

theorem empty_body_token_rejected:
  assumes "''chat_id'' \<in> fst ` set kvs" and "second_field op \<in> fst ` set kvs"
    and "dict_get ''bot_token'' kvs = Some v" and "\<not> py_truthy v"
  shows "route op e (JObj kvs) = (Inr (jsonify_error no_token_message, 400), [])
       \<and> serve op e (JObj kvs) =
           (JObj [(''error'', JStr
              ''No bot token provided and TELEGRAM_BOT_TOKEN environment variable not set'')],
            400)"
  using assms
  by (auto simp add: route_unfold serve_def jsonify_error_def no_token_message_def)

theorem empty_body_token_rejected_witness:
  "''chat_id'' \<in> fst ` set ((''bot_token'', JStr []) # photo_fields)
   \<and> second_field SendPhoto \<in> fst ` set ((''bot_token'', JStr []) # photo_fields)
   \<and> dict_get ''bot_token'' ((''bot_token'', JStr []) # photo_fields) = Some (JStr [])
   \<and> \<not> py_truthy (JStr [])
   \<and> DEFAULT_BOT_TOKEN (example_env (Some ''TOKEN'') network_down) = Some ''TOKEN''
   \<and> route SendPhoto (example_env (Some ''TOKEN'') network_down)
        (JObj ((''bot_token'', JStr []) # photo_fields))
      = (Inr (JObj [(''error'', JStr
              ''No bot token provided and TELEGRAM_BOT_TOKEN environment variable not set'')],
            400), [])"
proof -
  let ?kvs = "(''bot_token'', JStr []) # photo_fields"
  have h: "''chat_id'' \<in> fst ` set ?kvs" "second_field SendPhoto \<in> fst ` set ?kvs"
    "dict_get ''bot_token'' ?kvs = Some (JStr [])" "\<not> py_truthy (JStr [])"
    by (simp_all add: photo_fields_def dict_get_def)
  from empty_body_token_rejected [OF h, of "example_env (Some ''TOKEN'') network_down"] h
  show ?thesis
    by (simp add: jsonify_error_def no_token_message_def example_env_def)
qed

text \<open>
  Claim C10 as written, for every body with an empty \<^verbatim>\<open>bot_token\<close>, fails: without the
  required fields the earlier check answers first, and a body that holds only an empty
  \<^verbatim>\<open>bot_token\<close> is answered with the message about the missing \<^verbatim>\<open>chat_id\<close>.
\<close>

theorem empty_token_without_fields_counterexample:
  "dict_get ''bot_token'' [(''bot_token'', JStr [])] = Some (JStr [])
   \<and> \<not> py_truthy (JStr [])
   \<and> serve SendMessage (example_env (Some ''TOKEN'') network_down)
        (JObj [(''bot_token'', JStr [])])
      = (JObj [(''error'', JStr ''Missing required field: chat_id'')], 400)
   \<and> ''Missing required field: chat_id'' \<noteq> no_token_message"
  by (simp add: serve_def send_message_def dict_get_def jsonify_error_def no_token_message_def)

end
